theory Spec2Isabelle
  imports Complex_Main
begin

section \<open>Values, dictionaries and exceptions\<close>

text \<open>
  The program of \<^verbatim>\<open>mass_formula.py\<close> handles decoded JSON: \<^verbatim>\<open>None\<close>, booleans,
  numbers, strings, lists and dictionaries. A Python \<^verbatim>\<open>dict\<close> keeps its keys in
  insertion order and holds each key once, so it is an association list; the
  operations below are the ones the source uses on it.
\<close>

datatype json =
    JNull
  | JBool bool
  | JNum rat
  | JStr string
  | JList "json list"
  | JDict "(string \<times> json) list"

type_synonym pydict = "(string \<times> json) list"

text \<open>
  Exceptions are values. \<open>Uncaught\<close> carries the \<^verbatim>\<open>repr\<close> of an exception of the transport
  that none of the \<^verbatim>\<open>except\<close> clauses of \<^verbatim>\<open>get_formulas\<close> names (a read timeout, say).
  \<open>Unmodelled\<close> marks a call into pandas outside the fragment described below (a list of
  records holding something other than dictionaries, a column assignment of lists or
  dictionaries); no statement below draws on such an outcome.
\<close>

datatype error =
    KeyError string
  | TypeError string
  | ValueError string
  | InvalidSchema string
  | AttributeError string
  | Uncaught string
  | Unmodelled string

text \<open>\<^verbatim>\<open>d[k]\<close> and \<^verbatim>\<open>d.get(k)\<close>: the value stored under the key, if any.\<close>

fun dict_get :: "('k \<times> 'v) list \<Rightarrow> 'k \<Rightarrow> 'v option" where
  "dict_get [] k = None"
| "dict_get ((k', v) # d) k = (if k' = k then Some v else dict_get d k)"

text \<open>\<^verbatim>\<open>d[k] = v\<close>: an existing key keeps its place, a new key goes to the end.\<close>

fun dict_set :: "'k \<Rightarrow> 'v \<Rightarrow> ('k \<times> 'v) list \<Rightarrow> ('k \<times> 'v) list" where
  "dict_set k v [] = [(k, v)]"
| "dict_set k v ((k', v') # d) = (if k' = k then (k, v) # d else (k', v') # dict_set k v d)"

text \<open>\<^verbatim>\<open>del d[k]\<close>, for a key that is present (the callers test that first).\<close>

fun dict_del :: "'k \<Rightarrow> ('k \<times> 'v) list \<Rightarrow> ('k \<times> 'v) list" where
  "dict_del k [] = []"
| "dict_del k ((k', v') # d) = (if k' = k then dict_del k d else (k', v') # dict_del k d)"

definition keys :: "('k \<times> 'v) list \<Rightarrow> 'k list" where
  "keys d = map fst d"

definition values_of :: "('k \<times> 'v) list \<Rightarrow> 'v list" where
  "values_of d = map snd d"

text \<open>\<^verbatim>\<open>{**a, **b}\<close>: the items of \<open>b\<close> are stored into \<open>a\<close> one after the other.\<close>

fun dict_merge :: "('k \<times> 'v) list \<Rightarrow> ('k \<times> 'v) list \<Rightarrow> ('k \<times> 'v) list" where
  "dict_merge a [] = a"
| "dict_merge a ((k, v) # b) = dict_merge (dict_set k v a) b"

text \<open>
  \<^verbatim>\<open>isinstance(value, (dict, list))\<close> on a decoded JSON value; pandas' \<^verbatim>\<open>is_list_like\<close>
  agrees with it on such values (a string is not list-like).
\<close>

fun is_nested :: "json \<Rightarrow> bool" where
  "is_nested (JList xs) = True"
| "is_nested (JDict d) = True"
| "is_nested v = False"

text \<open>Python's truth value of a decoded JSON value, as \<^verbatim>\<open>if not x\<close> and \<^verbatim>\<open>if x\<close> test it.\<close>

fun truthy :: "json \<Rightarrow> bool" where
  "truthy JNull = False"
| "truthy (JBool b) = b"
| "truthy (JNum n) = (n \<noteq> 0)"
| "truthy (JStr s) = (s \<noteq> [])"
| "truthy (JList xs) = (xs \<noteq> [])"
| "truthy (JDict d) = (d \<noteq> [])"

section \<open>The fragment of pandas the program calls\<close>

text \<open>
  A \<^verbatim>\<open>DataFrame\<close> is its column labels, in order, and its rows, in order. A row is the
  association list of its populated cells; a column missing from it is a NaN cell. Row
  labels play no part in what the program does with a frame and are left out.
\<close>

record dataframe =
  columns :: "string list"
  rows :: "pydict list"

text \<open>\<^verbatim>\<open>pd.DataFrame(columns=cols)\<close>: no rows.\<close>

definition DataFrame_columns :: "string list \<Rightarrow> dataframe" where
  "DataFrame_columns cols = \<lparr>columns = cols, rows = []\<rparr>"

text \<open>Union of labels in order of first appearance (pandas' unsorted index union).\<close>

fun add_new :: "'a list \<Rightarrow> 'a list \<Rightarrow> 'a list" where
  "add_new acc [] = acc"
| "add_new acc (k # ks) = add_new (if k \<in> set acc then acc else acc @ [k]) ks"

text \<open>
  \<^verbatim>\<open>pd.DataFrame([d1, ..., dn])\<close> for dictionaries \<open>d1 ... dn\<close>: one row per dictionary, the
  columns are the keys in order of first appearance, a key a dictionary lacks is NaN there.
\<close>

definition DataFrame_records :: "pydict list \<Rightarrow> dataframe" where
  "DataFrame_records ds = \<lparr>columns = foldl add_new [] (map keys ds), rows = ds\<rparr>"

text \<open>
  \<^verbatim>\<open>pd.DataFrame(d)\<close> for a dictionary \<open>d\<close> of columns, no index given. pandas derives the
  row labels from the values: a list gives its length, a dictionary gives its keys, a
  scalar gives nothing and is repeated down the column. With no list and no dictionary
  among the values of a non-empty \<open>d\<close> there are no row labels to derive, and the constructor
  raises \<^verbatim>\<open>ValueError("If using all scalar values, you must pass an index")\<close>.
\<close>

fun list_lengths :: "pydict \<Rightarrow> nat list" where
  "list_lengths [] = []"
| "list_lengths ((k, JList xs) # d) = length xs # list_lengths d"
| "list_lengths ((k, v) # d) = list_lengths d"

fun dict_indexes :: "pydict \<Rightarrow> string list list" where
  "dict_indexes [] = []"
| "dict_indexes ((k, JDict m) # d) = keys m # dict_indexes d"
| "dict_indexes ((k, v) # d) = dict_indexes d"

fun cell_at :: "nat \<Rightarrow> string \<times> json \<Rightarrow> pydict" where
  "cell_at i (k, JList xs) = [(k, xs ! i)]"
| "cell_at i (k, v) = [(k, v)]"

fun cell_for :: "string \<Rightarrow> string \<times> json \<Rightarrow> pydict" where
  "cell_for l (k, JDict m) = (case dict_get m l of None \<Rightarrow> [] | Some v \<Rightarrow> [(k, v)])"
| "cell_for l (k, v) = [(k, v)]"

definition DataFrame_dict :: "pydict \<Rightarrow> error + dataframe" where
  "DataFrame_dict d =
     (let lens = list_lengths d; idx = dict_indexes d in
      if d = [] then Inr \<lparr>columns = [], rows = []\<rparr>
      else if lens = [] \<and> idx = [] then
        Inl (ValueError ''If using all scalar values, you must pass an index'')
      else if lens \<noteq> [] then
        (if \<not> list_all (\<lambda>n. n = hd lens) lens then
           Inl (ValueError ''All arrays must be of the same length'')
         else if idx \<noteq> [] then
           Inl (ValueError ''Mixing dicts with non-Series may lead to ambiguous ordering.'')
         else Inr \<lparr>columns = keys d,
                   rows = map (\<lambda>i. List.concat (map (cell_at i) d)) [0 ..< hd lens]\<rparr>)
      else Inr \<lparr>columns = keys d,
                rows = map (\<lambda>l. List.concat (map (cell_for l) d)) (foldl add_new [] idx)\<rparr>)"

text \<open>
  \<^verbatim>\<open>pd.DataFrame.from_dict(data)\<close> with the default orientation hands \<open>data\<close> to the
  constructor: a list of dictionaries is a list of records, a dictionary is a dictionary of
  columns, a scalar is refused.
\<close>

fun the_dicts :: "json list \<Rightarrow> pydict list option" where
  "the_dicts [] = Some []"
| "the_dicts (JDict d # xs) = (case the_dicts xs of None \<Rightarrow> None | Some ds \<Rightarrow> Some (d # ds))"
| "the_dicts (v # xs) = None"

fun DataFrame_from_dict :: "json \<Rightarrow> error + dataframe" where
  "DataFrame_from_dict (JList xs) =
     (case the_dicts xs of
        None \<Rightarrow> Inl (Unmodelled ''DataFrame of a list holding other than dictionaries'')
      | Some ds \<Rightarrow> Inr (DataFrame_records ds))"
| "DataFrame_from_dict (JDict d) = DataFrame_dict d"
| "DataFrame_from_dict v = Inl (ValueError ''DataFrame constructor not properly called!'')"

text \<open>
  \<^verbatim>\<open>pd.concat(frames)\<close>: the rows of the frames one after the other, under the union of
  their columns; an empty list of frames raises
  \<^verbatim>\<open>ValueError("No objects to concatenate")\<close>.
\<close>

definition pd_concat :: "dataframe list \<Rightarrow> error + dataframe" where
  "pd_concat dfs =
     (if dfs = [] then Inl (ValueError ''No objects to concatenate'')
      else Inr \<lparr>columns = foldl add_new [] (map columns dfs),
                rows = List.concat (map rows dfs)\<rparr>)"

text \<open>\<^verbatim>\<open>df[col] = v\<close> for a scalar \<open>v\<close>: every row gets \<open>v\<close>; a new column goes last.\<close>

definition set_column :: "string \<Rightarrow> json \<Rightarrow> dataframe \<Rightarrow> dataframe" where
  "set_column col v df =
     \<lparr>columns = (if col \<in> set (columns df) then columns df else columns df @ [col]),
      rows = map (dict_set col v) (rows df)\<rparr>"

text \<open>
  \<^verbatim>\<open>df[cols] = vals\<close> for a list of labels and a list of scalars of the same length:
  \<^verbatim>\<open>df[cols[i]] = vals[i]\<close> for each \<open>i\<close> in turn.
\<close>

fun set_each :: "string list \<Rightarrow> json list \<Rightarrow> dataframe \<Rightarrow> dataframe" where
  "set_each (c # cs) (v # vs) df = set_each cs vs (set_column c v df)"
| "set_each cs vs df = df"

definition set_columns :: "string list \<Rightarrow> json list \<Rightarrow> dataframe \<Rightarrow> error + dataframe" where
  "set_columns cols vals df =
     (if list_ex is_nested vals then
        Inl (Unmodelled ''column assignment of a list holding lists or dictionaries'')
      else if length cols \<noteq> length vals then
        Inl (ValueError ''Columns must be same length as key'')
      else Inr (set_each cols vals df))"

section \<open>The result normaliser\<close>

definition df_columns :: "string list" where
  "df_columns =
     [''em'', ''mf'', ''unsat'', ''jcampURL'', ''error'', ''ppm'', ''info'', ''minMass'',
      ''mfRange'', ''numberOfResultsOnly'', ''typedResult'', ''minUnsaturation'',
      ''maxUnsaturation'', ''useUnsaturation'', ''jcampBaseURL'', ''monoisotopicMass'',
      ''jcampLink'', ''integerUnsaturation'', ''maxMass'', ''referenceVersion'',
      ''massRange'', ''charge'', ''number_results'', ''search_number'', ''accuracy'',
      ''error_description'']"

text \<open>
  \<^verbatim>\<open>json[key]\<close> followed by \<^verbatim>\<open>**\<close> unpacking or by indexing with a string: the key has
  to be there (\<^verbatim>\<open>KeyError\<close>) and its value has to be a dictionary (\<^verbatim>\<open>TypeError\<close>).
\<close>

definition sub_dict :: "pydict \<Rightarrow> string \<Rightarrow> error + pydict" where
  "sub_dict json key =
     (case dict_get json key of
        None \<Rightarrow> Inl (KeyError key)
      | Some (JDict d) \<Rightarrow> Inr d
      | Some v \<Rightarrow> Inl (TypeError key))"

definition results_meta_data :: "pydict \<Rightarrow> error + pydict" where
  "results_meta_data json =
     (let meta = filter (\<lambda>(key, value). \<not> is_nested value) json in
      case sub_dict json ''options'' of
        Inl e \<Rightarrow> Inl e
      | Inr options \<Rightarrow>
          (case sub_dict json ''error'' of
             Inl e \<Rightarrow> Inl e
           | Inr err \<Rightarrow> Inr (dict_merge (dict_merge (dict_merge [] options) meta) err)))"

text \<open>
  \<^verbatim>\<open>json_to_dataframe\<close> deletes the key \<^verbatim>\<open>fatal\<close> from the dictionary it was handed, which
  is the caller's object. The first component of the result is that dictionary as it is
  after the call, the second the frame returned or the exception raised.
\<close>

definition json_to_dataframe :: "pydict \<Rightarrow> pydict \<times> (error + dataframe)" where
  "json_to_dataframe formulas_json =
     (let df = DataFrame_columns df_columns in
      case sub_dict formulas_json ''error'' of
        Inl e \<Rightarrow> (formulas_json, Inl e)
      | Inr err \<Rightarrow>
          (case dict_get err ''error_description'' of
             None \<Rightarrow> (formulas_json, Inl (KeyError ''error_description''))
           | Some description \<Rightarrow>
               if description \<noteq> JNull then
                 (if ''fatal'' \<in> set (keys err) then
                    (let err' = dict_del ''fatal'' err in
                     (dict_set ''error'' (JDict err') formulas_json,
                      pd_concat [df, DataFrame_records [err']]))
                  else (formulas_json, Inl (KeyError ''fatal'')))
               else
                 (formulas_json,
                  case results_meta_data formulas_json of
                    Inl e \<Rightarrow> Inl e
                  | Inr meta_data \<Rightarrow>
                      (case dict_get formulas_json ''results'' of
                         None \<Rightarrow> Inl (KeyError ''results'')
                       | Some results \<Rightarrow>
                           if \<not> truthy results then
                             (case DataFrame_dict meta_data of
                                Inl e \<Rightarrow> Inl e
                              | Inr m \<Rightarrow> pd_concat [df, m])
                           else
                             (case DataFrame_from_dict results of
                                Inl e \<Rightarrow> Inl e
                              | Inr r \<Rightarrow>
                                  (case pd_concat [df, r] of
                                     Inl e \<Rightarrow> Inl e
                                   | Inr df' \<Rightarrow>
                                       set_columns (keys meta_data) (values_of meta_data) df'))))))"

section \<open>The transport\<close>

text \<open>
  What the program sets on urllib3's \<^verbatim>\<open>Retry\<close>: the number of retries, the backoff
  factor, the methods retried (\<^verbatim>\<open>None\<close> for every method) and the status codes that
  force a retry. An \<^verbatim>\<open>HTTPAdapter\<close> is known by its \<^verbatim>\<open>max_retries\<close>.
\<close>

record retry =
  total :: nat
  backoff_factor :: nat
  allowed_methods :: "string list option"
  status_forcelist :: "nat list"

record adapter =
  max_retries :: retry

text \<open>\<^verbatim>\<open>HTTPAdapter()\<close> with no argument: \<^verbatim>\<open>Retry(0, read=False)\<close>, that is, no retry.\<close>

definition HTTPAdapter_default :: adapter where
  "HTTPAdapter_default =
     \<lparr>max_retries = \<lparr>total = 0, backoff_factor = 0,
        allowed_methods = Some [''HEAD'', ''GET'', ''PUT'', ''DELETE'', ''OPTIONS'', ''TRACE''],
        status_forcelist = []\<rparr>\<rparr>"

text \<open>
  A \<^verbatim>\<open>requests.Session\<close> keeps an ordered dictionary from URL prefix to adapter.
  \<^verbatim>\<open>mount\<close> stores the adapter under the prefix and then moves every shorter prefix
  behind it; \<^verbatim>\<open>get_adapter\<close> returns the adapter of the first prefix the lower-cased URL
  starts with, and raises \<^verbatim>\<open>InvalidSchema\<close> when there is none. A new session mounts a
  default adapter for \<^verbatim>\<open>https://\<close> and one for \<^verbatim>\<open>http://\<close>.
\<close>

record session =
  adapters :: "(string \<times> adapter) list"

definition move_to_end :: "('k \<times> 'v) list \<Rightarrow> 'k \<Rightarrow> ('k \<times> 'v) list" where
  "move_to_end d key =
     (case dict_get d key of None \<Rightarrow> d | Some v \<Rightarrow> dict_set key v (dict_del key d))"

definition mount :: "string \<Rightarrow> adapter \<Rightarrow> session \<Rightarrow> session" where
  "mount prefix a s =
     (let stored = dict_set prefix a (adapters s);
          keys_to_move = filter (\<lambda>k. length k < length prefix) (keys stored)
      in \<lparr>adapters = foldl move_to_end stored keys_to_move\<rparr>)"

definition Session :: session where
  "Session = mount ''http://'' HTTPAdapter_default
               (mount ''https://'' HTTPAdapter_default \<lparr>adapters = []\<rparr>)"

definition lower_char :: "char \<Rightarrow> char" where
  "lower_char c =
     (let n = (of_char c :: nat) in if 65 \<le> n \<and> n \<le> 90 then char_of (n + 32) else c)"

definition lower :: "string \<Rightarrow> string" where
  "lower s = map lower_char s"

fun startswith :: "string \<Rightarrow> string \<Rightarrow> bool" where
  "startswith s [] = True"
| "startswith [] (p # ps) = False"
| "startswith (c # cs) (p # ps) = (c = p \<and> startswith cs ps)"

fun first_match :: "(string \<times> adapter) list \<Rightarrow> string \<Rightarrow> adapter option" where
  "first_match [] u = None"
| "first_match ((prefix, a) # rest) u =
     (if startswith (lower u) (lower prefix) then Some a else first_match rest u)"

definition get_adapter :: "session \<Rightarrow> string \<Rightarrow> error + adapter" where
  "get_adapter s u =
     (case first_match (adapters s) u of
        None \<Rightarrow> Inl (InvalidSchema u)
      | Some a \<Rightarrow> Inr a)"

text \<open>
  A request as it leaves the session: where it goes, its query parameters, its timeout, and
  the retry policy of the adapter that sends it. What comes back from
  \<^verbatim>\<open>session.get(...).json()\<close> is the decoded body or an exception (with its \<^verbatim>\<open>repr\<close>).
  The network is a parameter: it answers a request given the requests sent before it.
  The list of requests sent so far is the state that \<^verbatim>\<open>get_formulas\<close> and \<^verbatim>\<open>formulas\<close> change.
\<close>

record request =
  req_url :: string
  req_params :: pydict
  req_timeout :: nat
  req_retries :: retry

datatype outcome =
    Decoded json
  | RetryError string
  | ConnectionError string
  | JSONDecodeError string
  | OtherException string

type_synonym network = "request list \<Rightarrow> request \<Rightarrow> outcome"

definition session_get ::
  "session \<Rightarrow> network \<Rightarrow> request list \<Rightarrow> string \<Rightarrow> pydict \<Rightarrow> nat
     \<Rightarrow> request list \<times> (error + outcome)" where
  "session_get s net sent u ps t =
     (case get_adapter s u of
        Inl e \<Rightarrow> (sent, Inl e)
      | Inr a \<Rightarrow>
          (let r = \<lparr>req_url = u, req_params = ps, req_timeout = t,
                    req_retries = max_retries a\<rparr>
           in (sent @ [r], Inr (net sent r))))"

section \<open>The request executor\<close>

record finder =
  typed_result :: bool
  use_unsaturation :: bool
  min_unsaturation :: int
  max_unsaturation :: int
  integer_unsaturation :: bool
  jcamp_link :: bool
  session_of :: session

definition url :: string where
  "url = ''https://www.chemcalc.org/chemcalc/em''"

text \<open>The policy \<^verbatim>\<open>__init__\<close> builds, and the constructor itself.\<close>

definition retry_policy :: retry where
  "retry_policy =
     \<lparr>total = 4, backoff_factor = 1, allowed_methods = None,
      status_forcelist = [429, 500, 502, 503, 504]\<rparr>"

definition ChemCalcFormulaFinder ::
  "bool \<Rightarrow> bool \<Rightarrow> int \<Rightarrow> int \<Rightarrow> bool \<Rightarrow> bool \<Rightarrow> finder" where
  "ChemCalcFormulaFinder typed use_unsat min_unsat max_unsat integer_unsat jcamp =
     \<lparr>typed_result = typed, use_unsaturation = use_unsat, min_unsaturation = min_unsat,
      max_unsaturation = max_unsat, integer_unsaturation = integer_unsat, jcamp_link = jcamp,
      session_of = mount ''http://'' \<lparr>max_retries = retry_policy\<rparr> Session\<rparr>"

definition error_payload :: "bool \<Rightarrow> string \<Rightarrow> rat \<Rightarrow> rat \<Rightarrow> string \<Rightarrow> string \<Rightarrow> pydict" where
  "error_payload fatal_error error_description mass accuracy mf_range charge =
     [(''error'', JDict
        [(''fatal'', JBool fatal_error),
         (''error_description'', JStr error_description),
         (''em'', JNum mass),
         (''accuracy'', JNum accuracy),
         (''mfRange'', JStr mf_range),
         (''charge'', JStr charge)])]"

text \<open>
  \<^verbatim>\<open>get_formulas\<close>: a decoded body has to be a dictionary for \<^verbatim>\<open>results['error'] = ...\<close>
  to work (anything else is a \<^verbatim>\<open>TypeError\<close>, which no clause catches);
  \<^verbatim>\<open>RetryError\<close> and \<^verbatim>\<open>ConnectionError\<close> give a fatal error payload, \<^verbatim>\<open>JSONDecodeError\<close>
  a non-fatal one; any other exception leaves the method.
\<close>

definition get_formulas ::
  "finder \<Rightarrow> network \<Rightarrow> request list \<Rightarrow> rat \<Rightarrow> rat \<Rightarrow> string \<Rightarrow> string
     \<Rightarrow> request list \<times> (error + pydict)" where
  "get_formulas self net sent mass accuracy mf_range0 charge =
     (let mf_range = mf_range0 @ ''('' @ charge @ '')'';
          params =
            [(''mfRange'', JStr mf_range),
             (''numberOfResultsOnly'', JBool False),
             (''typedResult'', JBool (typed_result self)),
             (''useUnsaturation'', JBool (use_unsaturation self)),
             (''minUnsaturation'', JNum (of_int (min_unsaturation self))),
             (''maxUnsaturation'', JNum (of_int (max_unsaturation self))),
             (''jcampBaseURL'', JStr ''http://www.chemcalc.org/service/jcamp/''),
             (''monoisotopicMass'', JNum mass),
             (''jcampLink'', JBool (jcamp_link self)),
             (''integerUnsaturation'', JBool (integer_unsaturation self)),
             (''referenceVersion'', JStr ''2013''),
             (''massRange'', JNum accuracy)]
      in case session_get (session_of self) net sent url params 5 of
           (sent', Inl e) \<Rightarrow> (sent', Inl e)
         | (sent', Inr (Decoded (JDict results))) \<Rightarrow>
             (sent', Inr (dict_set ''error'' (JDict [(''error_description'', JNull)]) results))
         | (sent', Inr (Decoded body)) \<Rightarrow> (sent', Inl (TypeError ''error''))
         | (sent', Inr (RetryError err)) \<Rightarrow>
             (sent', Inr (error_payload True err mass accuracy mf_range charge))
         | (sent', Inr (ConnectionError err)) \<Rightarrow>
             (sent', Inr (error_payload True err mass accuracy mf_range charge))
         | (sent', Inr (JSONDecodeError err)) \<Rightarrow>
             (sent', Inr (error_payload False err mass accuracy mf_range charge))
         | (sent', Inr (OtherException err)) \<Rightarrow> (sent', Inl (Uncaught err)))"

section \<open>The batch orchestrator\<close>

text \<open>
  \<^verbatim>\<open>formulas\<close> is called with four scalars, of which the mass is a number, or with four
  sequences. On scalars \<^verbatim>\<open>zip(..., strict=True)\<close> raises \<^verbatim>\<open>TypeError\<close> at once (a number
  cannot be iterated) and the arguments are zipped as singleton lists instead.
\<close>

datatype batch =
    Scalars rat rat string string
  | Sequences "rat list" "rat list" "string list" "string list"

text \<open>
  \<^verbatim>\<open>zip\<close> is lazy: it builds a tuple only when the loop asks for the next one. Each call
  takes one element from every argument in turn. Without \<open>strict\<close> the first exhausted
  argument ends the iteration. With \<open>strict\<close>, an exhausted argument after the first raises
  \<^verbatim>\<open>ValueError\<close> (it is shorter), and when the first argument is exhausted every later
  one has to be exhausted too (else it is longer).
\<close>

type_synonym zip_state = "rat list \<times> rat list \<times> string list \<times> string list"

fun zip_next ::
  "bool \<Rightarrow> zip_state \<Rightarrow> error + ((rat \<times> rat \<times> string \<times> string) \<times> zip_state) option" where
  "zip_next strict ([], bs, cs, ds) =
     (if \<not> strict then Inr None
      else if bs \<noteq> [] then Inl (ValueError ''zip() argument 2 is longer than argument 1'')
      else if cs \<noteq> [] then Inl (ValueError ''zip() argument 3 is longer than arguments 1-2'')
      else if ds \<noteq> [] then Inl (ValueError ''zip() argument 4 is longer than arguments 1-3'')
      else Inr None)"
| "zip_next strict (a # as, [], cs, ds) =
     (if strict then Inl (ValueError ''zip() argument 2 is shorter than argument 1'')
      else Inr None)"
| "zip_next strict (a # as, b # bs, [], ds) =
     (if strict then Inl (ValueError ''zip() argument 3 is shorter than arguments 1-2'')
      else Inr None)"
| "zip_next strict (a # as, b # bs, c # cs, []) =
     (if strict then Inl (ValueError ''zip() argument 4 is shorter than arguments 1-3'')
      else Inr None)"
| "zip_next strict (a # as, b # bs, c # cs, d # ds) =
     Inr (Some ((a, b, c, d), (as, bs, cs, ds)))"

text \<open>\<^verbatim>\<open>formulas_json['error'].get('fatal_error', False)\<close>, as the \<^verbatim>\<open>if\<close> reads it.\<close>

definition fatal_error_flag :: "pydict \<Rightarrow> error + bool" where
  "fatal_error_flag formulas_json =
     (case dict_get formulas_json ''error'' of
        None \<Rightarrow> Inl (KeyError ''error'')
      | Some (JDict err) \<Rightarrow>
          Inr (truthy (case dict_get err ''fatal_error'' of None \<Rightarrow> JBool False | Some v \<Rightarrow> v))
      | Some v \<Rightarrow> Inl (AttributeError ''get''))"

text \<open>
  The \<^verbatim>\<open>for\<close> loop of \<^verbatim>\<open>formulas\<close>: its state is the zip iterator, the index that
  \<^verbatim>\<open>enumerate\<close> counts, the list \<open>results\<close> and the requests sent. It ends when the iterator
  is exhausted or raises, when a call raises, or at the \<^verbatim>\<open>break\<close>.
\<close>

function formulas_loop ::
  "finder \<Rightarrow> network \<Rightarrow> bool \<Rightarrow> zip_state \<Rightarrow> nat \<Rightarrow> dataframe list \<Rightarrow> request list
     \<Rightarrow> request list \<times> (error + dataframe list)" where
  "formulas_loop self net strict params index results sent =
     (case zip_next strict params of
        Inl e \<Rightarrow> (sent, Inl e)
      | Inr None \<Rightarrow> (sent, Inr results)
      | Inr (Some ((mz, accuracy, mf_range, charge), params')) \<Rightarrow>
          (case get_formulas self net sent mz accuracy mf_range charge of
             (sent', Inl e) \<Rightarrow> (sent', Inl e)
           | (sent', Inr formulas_json) \<Rightarrow>
               (case json_to_dataframe formulas_json of
                  (formulas_json', Inl e) \<Rightarrow> (sent', Inl e)
                | (formulas_json', Inr result) \<Rightarrow>
                    (let results' =
                           results @ [set_column ''search_number'' (JNum (of_nat index)) result]
                     in case fatal_error_flag formulas_json' of
                          Inl e \<Rightarrow> (sent', Inl e)
                        | Inr stop \<Rightarrow>
                            if stop then (sent', Inr results')
                            else formulas_loop self net strict params' (Suc index) results' sent'))))"
  by pat_completeness auto
termination
proof (relation "measure (\<lambda>(self, net, strict, params, index, results, sent). length (fst params))")
  show "wf (measure (\<lambda>(self, net, strict, params, index, results, sent). length (fst params)))"
    by simp
next
  fix self :: finder and net :: network and strict :: bool and params :: zip_state
    and index :: nat and results :: "dataframe list" and sent :: "request list"
    and x2 x2a and x y and params' :: zip_state
    and results' :: "dataframe list" and sent' :: "request list"
  assume "zip_next strict params = Inr x2" and "x2 = Some x2a" and "(x, params') = x2a"
  then have "zip_next strict params = Inr (Some (x, params'))"
    by simp
  then have "length (fst params') < length (fst params)"
    by (cases "(strict, params)" rule: zip_next.cases) (auto split: if_splits)
  then show "((self, net, strict, params', Suc index, results', sent'),
              (self, net, strict, params, index, results, sent))
             \<in> measure (\<lambda>(self, net, strict, params, index, results, sent). length (fst params))"
    by simp
qed

declare formulas_loop.simps [simp del]

text \<open>The \<^verbatim>\<open>try\<close> at the head of \<^verbatim>\<open>formulas\<close>: which zip the loop runs over.\<close>

definition zip_params :: "batch \<Rightarrow> bool \<times> zip_state" where
  "zip_params b =
     (case b of
        Sequences mass accuracy mf_range charge \<Rightarrow> (True, (mass, accuracy, mf_range, charge))
      | Scalars mass accuracy mf_range charge \<Rightarrow>
          (False, ([mass], [accuracy], [mf_range], [charge])))"

definition formulas ::
  "finder \<Rightarrow> network \<Rightarrow> request list \<Rightarrow> batch \<Rightarrow> request list \<times> (error + dataframe)" where
  "formulas self net sent b =
     (case formulas_loop self net (fst (zip_params b)) (snd (zip_params b)) 0 [] sent of
        (sent', Inl e) \<Rightarrow> (sent', Inl e)
      | (sent', Inr results) \<Rightarrow> (sent', pd_concat results))"

section \<open>Notions the statements use\<close>




text \<open>The column \<^verbatim>\<open>search_number\<close> of a frame, top to bottom (\<open>None\<close> for a NaN cell).\<close>

definition search_numbers :: "dataframe \<Rightarrow> json option list" where
  "search_numbers df = map (\<lambda>row. dict_get row ''search_number'') (rows df)"

text \<open>The masses the requests of a list ask about, in the order they were sent.\<close>

definition masses_sent :: "request list \<Rightarrow> json option list" where
  "masses_sent sent = map (\<lambda>r. dict_get (req_params r) ''monoisotopicMass'') sent"


section \<open>Concrete inputs\<close>

text \<open>A finder with the constructor's defaults.\<close>

definition finder0 :: finder where
  "finder0 = ChemCalcFormulaFinder False False 0 50 False True"

text \<open>A body with one candidate, and a body with none; both echo an option.\<close>

definition body_one :: json where
  "body_one =
     JDict [(''results'', JList [JDict [(''em'', JNum 50), (''mf'', JStr ''C4H2'')]]),
            (''numberResults'', JNum 1),
            (''options'', JDict [(''mfRange'', JStr ''C0-10(+)'')])]"

definition body_none :: json where
  "body_none =
     JDict [(''results'', JList []),
            (''numberResults'', JNum 0),
            (''options'', JDict [(''mfRange'', JStr ''C0-10(+)'')])]"



definition response_one :: pydict where
  "response_one =
     [(''results'', JList [JDict [(''em'', JNum 50), (''mf'', JStr ''C4H2'')]]),
      (''numberResults'', JNum 1),
      (''options'', JDict [(''mfRange'', JStr ''C0-10(+)'')]),
      (''error'', JDict [(''error_description'', JNull)])]"

definition response_none :: pydict where
  "response_none =
     [(''results'', JList []),
      (''numberResults'', JNum 0),
      (''options'', JDict [(''mfRange'', JStr ''C0-10(+)'')]),
      (''error'', JDict [(''error_description'', JNull)])]"

definition response_fatal :: pydict where
  "response_fatal = error_payload True ''ConnectionError()'' 60 1 ''C0-10(+)'' ''+''"

definition error_fatal :: pydict where
  "error_fatal =
     [(''fatal'', JBool True),
      (''error_description'', JStr ''ConnectionError()''),
      (''em'', JNum 60),
      (''accuracy'', JNum 1),
      (''mfRange'', JStr ''C0-10(+)''),
      (''charge'', JStr ''+'')]"

text \<open>
  Networks: one that always answers with a candidate, one that never finds a candidate,
  one whose second request (and only that one) fails to connect, and one whose first
  answer is the body with the empty list among its options.
\<close>

definition net_one :: network where
  "net_one sent r = Decoded body_one"

definition net_none :: network where
  "net_none sent r = Decoded body_none"

definition net_second_fails :: network where
  "net_second_fails sent r =
     (if length sent = 1 then ConnectionError ''ConnectionError()'' else Decoded body_one)"




definition batch3 :: batch where
  "batch3 = Sequences [50, 60, 70] [1, 1, 1] [''C0-10'', ''C0-10'', ''C0-10''] [''+'', ''+'', ''+'']"

definition batch_mismatch :: batch where
  "batch_mismatch =
     Sequences [50, 60, 70] [1, 1] [''C0-10'', ''C0-10'', ''C0-10''] [''+'', ''+'', ''+'']"

section \<open>Dictionaries and frames: basic facts\<close>

lemma dict_get_dict_del_same: "dict_get (dict_del k d) k = None"
  by (induction d) auto

lemma keys_dict_del: "k \<notin> set (keys (dict_del k d))"
proof (induction d)
  case Nil
  show ?case by (simp add: keys_def)
next
  case (Cons p d)
  then show ?case by (cases p) (simp add: keys_def)
qed

lemma dict_get_dict_set_same: "dict_get (dict_set k v d) k = Some v"
  by (induction d) auto



lemma sub_dict_dict_set: "sub_dict (dict_set k (JDict e) d) k = Inr e"
  by (simp add: sub_dict_def dict_get_dict_set_same)

lemma add_new_set: "set (add_new acc ks) = set acc \<union> set ks"
  by (induction ks arbitrary: acc) auto

lemma add_new_df_columns: "add_new [] df_columns = df_columns"
  by (simp add: df_columns_def)

lemma fatal_not_df_column: "''fatal'' \<notin> set df_columns"
  by (simp add: df_columns_def)

lemma get_formulas_net_one:
  "snd (get_formulas finder0 net_one sent 50 1 ''C0-10'' ''+'') = Inr response_one"
  by (simp add: get_formulas_def session_get_def finder0_def ChemCalcFormulaFinder_def
      get_adapter_def mount_def Session_def keys_def move_to_end_def url_def lower_def
      lower_char_def Let_def net_one_def body_one_def response_one_def)

lemma sub_dict_response_fatal: "sub_dict response_fatal ''error'' = Inr error_fatal"
  by (simp add: response_fatal_def error_payload_def error_fatal_def sub_dict_def)











section \<open>The normaliser on an error payload\<close>

text \<open>
  C5. A response whose \<^verbatim>\<open>error\<close> dictionary has the key \<^verbatim>\<open>fatal\<close> (every error payload
  of \<^verbatim>\<open>get_formulas\<close> has it) and a description other than \<^verbatim>\<open>None\<close> is turned into a
  frame of exactly one row. The row is the error dictionary without \<^verbatim>\<open>fatal\<close>, and the
  frame has no column \<^verbatim>\<open>fatal\<close>.
\<close>

theorem json_to_dataframe_error_row:
  assumes "sub_dict formulas_json ''error'' = Inr err"
    and "dict_get err ''error_description'' = Some description"
    and "description \<noteq> JNull"
    and "''fatal'' \<in> set (keys err)"
  shows "\<exists>table. snd (json_to_dataframe formulas_json) = Inr table
           \<and> rows table = [dict_del ''fatal'' err]
           \<and> length (rows table) = 1
           \<and> ''fatal'' \<notin> set (columns table)
           \<and> list_all (\<lambda>row. dict_get row ''fatal'' = None) (rows table)"
proof -
  let ?err = "dict_del ''fatal'' err"
  let ?table = "\<lparr>columns = add_new df_columns (add_new [] (keys ?err)), rows = [?err]\<rparr>"
  have "snd (json_to_dataframe formulas_json) = Inr ?table"
    using assms
    by (simp add: json_to_dataframe_def pd_concat_def DataFrame_columns_def
        DataFrame_records_def Let_def add_new_df_columns)
  moreover have "''fatal'' \<notin> set (columns ?table)"
    by (simp add: add_new_set keys_dict_del fatal_not_df_column)
  ultimately show ?thesis
    by (simp add: dict_get_dict_del_same)
qed

text \<open>The payload of a failed connection, as \<^verbatim>\<open>get_formulas\<close> builds it, is such a response.\<close>

theorem json_to_dataframe_error_row_witness:
  "sub_dict response_fatal ''error'' = Inr error_fatal
     \<and> dict_get error_fatal ''error_description'' = Some (JStr ''ConnectionError()'')
     \<and> ''fatal'' \<in> set (keys error_fatal)
     \<and> (\<exists>table. snd (json_to_dataframe response_fatal) = Inr table
           \<and> rows table = [dict_del ''fatal'' error_fatal]
           \<and> length (rows table) = 1
           \<and> ''fatal'' \<notin> set (columns table)
           \<and> list_all (\<lambda>row. dict_get row ''fatal'' = None) (rows table))"
proof -
  have h2: "dict_get error_fatal ''error_description'' = Some (JStr ''ConnectionError()'')"
    by (simp add: error_fatal_def)
  have h3: "JStr ''ConnectionError()'' \<noteq> JNull"
    by simp
  have h4: "''fatal'' \<in> set (keys error_fatal)"
    by (simp add: error_fatal_def keys_def)
  show ?thesis
    using json_to_dataframe_error_row [OF sub_dict_response_fatal h2 h3 h4]
      sub_dict_response_fatal h2 h4
    by simp
qed

text \<open>
  C9. \<^verbatim>\<open>json_to_dataframe\<close> changes the dictionary it is handed: for a response whose
  \<^verbatim>\<open>error\<close> dictionary has a description other than \<^verbatim>\<open>None\<close> and the key \<^verbatim>\<open>fatal\<close>, the
  response as it is after the call is the response with its \<^verbatim>\<open>error\<close> dictionary replaced
  by the one without that key, so that reading \<^verbatim>\<open>fatal\<close> from it afterwards finds
  nothing.
\<close>

theorem json_to_dataframe_deletes_fatal:
  assumes "sub_dict formulas_json ''error'' = Inr err"
    and "dict_get err ''error_description'' = Some description"
    and "description \<noteq> JNull"
    and "''fatal'' \<in> set (keys err)"
  shows "fst (json_to_dataframe formulas_json)
             = dict_set ''error'' (JDict (dict_del ''fatal'' err)) formulas_json
           \<and> sub_dict (fst (json_to_dataframe formulas_json)) ''error''
               = Inr (dict_del ''fatal'' err)
           \<and> ''fatal'' \<notin> set (keys (dict_del ''fatal'' err))
           \<and> dict_get (dict_del ''fatal'' err) ''fatal'' = None"
  using assms
  by (simp add: json_to_dataframe_def Let_def sub_dict_dict_set keys_dict_del
      dict_get_dict_del_same)

text \<open>On the payload of a failed connection the flag \<open>True\<close> is there before and gone after.\<close>

theorem json_to_dataframe_deletes_fatal_witness:
  "dict_get error_fatal ''fatal'' = Some (JBool True)
     \<and> sub_dict response_fatal ''error'' = Inr error_fatal
     \<and> sub_dict (fst (json_to_dataframe response_fatal)) ''error''
         = Inr (dict_del ''fatal'' error_fatal)
     \<and> ''fatal'' \<notin> set (keys (dict_del ''fatal'' error_fatal))
     \<and> dict_get (dict_del ''fatal'' error_fatal) ''fatal'' = None"
proof -
  have h2: "dict_get error_fatal ''error_description'' = Some (JStr ''ConnectionError()'')"
    by (simp add: error_fatal_def)
  have h3: "JStr ''ConnectionError()'' \<noteq> JNull"
    by simp
  have h4: "''fatal'' \<in> set (keys error_fatal)"
    by (simp add: error_fatal_def keys_def)
  have h5: "dict_get error_fatal ''fatal'' = Some (JBool True)"
    by (simp add: error_fatal_def)
  show ?thesis
    using json_to_dataframe_deletes_fatal [OF sub_dict_response_fatal h2 h3 h4]
      sub_dict_response_fatal h5
    by blast
qed

section \<open>The normaliser on a response without candidates\<close>

text \<open>
  C3. The specification has a response with no error and an empty \<^verbatim>\<open>results\<close> list give
  a frame of one row. The response \<open>response_none\<close> is what \<^verbatim>\<open>get_formulas\<close> returns for a
  body with no candidates, an option echoed and a count at top level. Its metadata
  dictionary holds scalars only, \<^verbatim>\<open>pd.DataFrame(meta_data)\<close> has no row labels to go by, and
  \<^verbatim>\<open>json_to_dataframe\<close> raises \<^verbatim>\<open>ValueError\<close> instead of returning a frame.
\<close>

theorem json_to_dataframe_no_candidates_raises:
  "snd (get_formulas finder0 net_none [] 50 1 ''C0-10'' ''+'') = Inr response_none
     \<and> results_meta_data response_none
         = Inr [(''mfRange'', JStr ''C0-10(+)''), (''numberResults'', JNum 0),
                (''error_description'', JNull)]
     \<and> json_to_dataframe response_none
         = (response_none,
            Inl (ValueError ''If using all scalar values, you must pass an index''))"
  by code_simp

section \<open>The normaliser on a response with candidates\<close>



section \<open>The adapter that serves the endpoint\<close>

lemma get_adapter_url:
  "get_adapter (session_of (ChemCalcFormulaFinder a b c d e f)) url = Inr HTTPAdapter_default"
  by (simp add: ChemCalcFormulaFinder_def get_adapter_def mount_def Session_def keys_def
      move_to_end_def url_def lower_def lower_char_def)

text \<open>
  C4. The specification has the adapter carrying the retry policy handle the requests to
  the endpoint. The constructor mounts that adapter for the prefix \<^verbatim>\<open>http://\<close>; the endpoint
  starts with \<^verbatim>\<open>https://\<close>, whose adapter is the default one of the session. However
  the finder is configured, the adapter chosen for the endpoint is the default adapter, every
  request \<^verbatim>\<open>get_formulas\<close> sends carries that adapter's policy of no retry, and that policy
  is not the one \<^verbatim>\<open>__init__\<close> built.
\<close>

theorem endpoint_served_without_retries:
  "get_adapter (session_of (ChemCalcFormulaFinder a b c d e f)) url = Inr HTTPAdapter_default
     \<and> map req_retries
         (fst (get_formulas (ChemCalcFormulaFinder a b c d e f) net sent
                 mass accuracy mf_range charge))
         = map req_retries sent @ [max_retries HTTPAdapter_default]
     \<and> total (max_retries HTTPAdapter_default) = 0
     \<and> max_retries HTTPAdapter_default \<noteq> retry_policy"
proof -
  have "map req_retries
          (fst (get_formulas (ChemCalcFormulaFinder a b c d e f) net sent
                  mass accuracy mf_range charge))
          = map req_retries sent @ [max_retries HTTPAdapter_default]"
    by (simp add: get_formulas_def session_get_def get_adapter_url Let_def
        split: outcome.splits json.splits)
  moreover have "total (max_retries HTTPAdapter_default) = 0"
    by (simp add: HTTPAdapter_default_def)
  moreover have "max_retries HTTPAdapter_default \<noteq> retry_policy"
    by (simp add: HTTPAdapter_default_def retry_policy_def)
  ultimately show ?thesis
    using get_adapter_url by simp
qed

section \<open>The batch orchestrator on concrete batches\<close>

text \<open>
  C10. Called with four empty sequences, \<^verbatim>\<open>formulas\<close> sends nothing, reaches
  \<^verbatim>\<open>pd.concat\<close> with an empty list of frames, and raises its \<^verbatim>\<open>ValueError\<close>: no table is
  returned for an empty batch, whatever the finder and the network.
\<close>

theorem formulas_empty_batch_raises:
  "formulas self net sent (Sequences [] [] [] [])
     = (sent, Inl (ValueError ''No objects to concatenate''))"
  by (simp add: formulas_def zip_params_def formulas_loop.simps pd_concat_def)

text \<open>
  C2. The specification has unequal lengths refused before any request is sent. With three
  masses and two accuracies, against a network that answers every request with a
  candidate, \<^verbatim>\<open>formulas\<close> sends two requests and raises the \<^verbatim>\<open>ValueError\<close> of \<^verbatim>\<open>zip\<close> only
  when the loop asks for the third tuple.
\<close>

theorem formulas_mismatch_after_requests:
  "masses_sent (fst (formulas finder0 net_one [] batch_mismatch))
       = [Some (JNum 50), Some (JNum 60)]
     \<and> snd (formulas finder0 net_one [] batch_mismatch)
         = Inl (ValueError ''zip() argument 2 is shorter than argument 1'')"
  by code_simp

text \<open>
  C1. The specification has the loop stop after the first query whose response carries a
  fatal error. With three queries of which the second fails to connect (its response is
  the fatal error payload), \<^verbatim>\<open>formulas\<close> sends three requests, the last one for the third
  query, and returns rows for the queries 0, 1 and 2.
\<close>

theorem formulas_continues_after_fatal_error:
  "snd (get_formulas finder0 net_second_fails [r] 60 1 ''C0-10'' ''+'') = Inr response_fatal
     \<and> masses_sent (fst (formulas finder0 net_second_fails [] batch3))
         = [Some (JNum 50), Some (JNum 60), Some (JNum 70)]
     \<and> map_sum id search_numbers (snd (formulas finder0 net_second_fails [] batch3))
         = Inr [Some (JNum 0), Some (JNum 1), Some (JNum 2)]"
proof -
  have "snd (get_formulas finder0 net_second_fails [r] 60 1 ''C0-10'' ''+'') = Inr response_fatal"
    by (simp add: get_formulas_def session_get_def finder0_def get_adapter_url Let_def
        net_second_fails_def response_fatal_def)
  moreover have "masses_sent (fst (formulas finder0 net_second_fails [] batch3))
         = [Some (JNum 50), Some (JNum 60), Some (JNum 70)]"
    by code_simp
  moreover have "map_sum id search_numbers (snd (formulas finder0 net_second_fails [] batch3))
         = Inr [Some (JNum 0), Some (JNum 1), Some (JNum 2)]"
    by code_simp
  ultimately show ?thesis
    by simp
qed

section \<open>The loop of the batch orchestrator\<close>























end
